theory Spec2Isabelle
  imports Main
begin

section \<open>The service command of the agent: data\<close>

text \<open>
  The development follows \<^verbatim>\<open>cmd/service.go\<close> (the command, its \<^verbatim>\<open>Run\<close> and
  \<^verbatim>\<open>readConfig\<close>) and the configuration file of the same package (\<^verbatim>\<open>PortConfig\<close>,
  \<^verbatim>\<open>Config\<close>, \<^verbatim>\<open>DefaultConfig\<close>). Go strings are \<^typ>\<open>string\<close>, Go's \<^verbatim>\<open>int\<close> is
  \<^typ>\<open>int\<close> (the code does no arithmetic on it), an \<^verbatim>\<open>error\<close> is the text of its
  \<^verbatim>\<open>Error()\<close>, and a value that may be \<^verbatim>\<open>nil\<close> is an option or a flag saying that it
  is not \<^verbatim>\<open>nil\<close>.
\<close>

record PortConfig =
  HTTP :: int
  Server :: int

text \<open>
  A service descriptor and a check descriptor. The package declares neither type in the
  files at hand; \<^verbatim>\<open>Run\<close> reads the field \<^verbatim>\<open>Name\<close> of both and hands the values derived
  from a descriptor (\<^verbatim>\<open>NodeService()\<close>, \<^verbatim>\<open>CheckType()\<close>, \<^verbatim>\<open>HealthCheck(node)\<close>) to the
  agent, so a descriptor is its name and an opaque body.
\<close>

record Service =
  Service_Name :: string
  Service_body :: string

record Check =
  Check_Name :: string
  Check_body :: string

text \<open>
  \<^verbatim>\<open>Config\<close>, with the eight fields of the declaration and, after them, the three fields
  that \<^verbatim>\<open>Run\<close> branches on without the declaration having them (\<^verbatim>\<open>StatsiteAddr\<close>,
  \<^verbatim>\<open>Services\<close>, \<^verbatim>\<open>Checks\<close>).
\<close>

record Config =
  LogLevel :: string
  NodeName :: string
  BindAddr :: string
  Ports :: PortConfig
  StartJoin :: "string list"
  Revision :: string
  Version :: string
  VersionPrerelease :: string
  StatsiteAddr :: string
  Services :: "Service list"
  Checks :: "Check list"

text \<open>
  \<^verbatim>\<open>ServiceCommand\<close>. The \<^verbatim>\<open>Ui\<close> is the journal of events below, and the shutdown
  channel is read by no code at hand. The three build fields carry the prefix \<open>cmd\<close>
  to keep them apart from the fields of \<^verbatim>\<open>Config\<close> of the same names.
\<close>

record ServiceCommand =
  cmd_Revision :: string
  cmd_Version :: string
  cmd_VersionPrerelease :: string
  args :: "string list"

text \<open>The zero value of \<^verbatim>\<open>Config\<close>: what \<^verbatim>\<open>var cmdConfig Config\<close> and a composite
  literal leave in the fields they do not name.\<close>

definition zero_Config :: Config where
  "zero_Config =
     \<lparr>LogLevel = '''', NodeName = '''', BindAddr = '''',
      Ports = \<lparr>HTTP = 0, Server = 0\<rparr>, StartJoin = [],
      Revision = '''', Version = '''', VersionPrerelease = '''',
      StatsiteAddr = '''', Services = [], Checks = []\<rparr>"

definition DefaultConfig :: Config where
  "DefaultConfig =
     zero_Config\<lparr>LogLevel := ''INFO'', BindAddr := ''0.0.0.0'',
       Ports := \<lparr>HTTP = 8500, Server = 8300\<rparr>\<rparr>"

definition Help :: "ServiceCommand \<Rightarrow> string" where
  "Help c = ''''"

definition Synopsis :: "ServiceCommand \<Rightarrow> string" where
  "Synopsis c = ''''"

section \<open>What the command does to the outside\<close>

text \<open>
  The three handles \<^verbatim>\<open>Run\<close> shuts down, the metrics sinks it builds, and the journal of
  the calls \<^verbatim>\<open>Run\<close> and \<^verbatim>\<open>readConfig\<close> make on their collaborators, in the order they
  make them. A \<open>Ui\<close> event is a call on \<^verbatim>\<open>c.Ui\<close>, the prefixed Ui that \<^verbatim>\<open>Run\<close> installs
  first; \<open>Shutdown h r\<close> is the call of the \<^verbatim>\<open>Shutdown\<close> method of handle \<open>h\<close>, which
  reported \<open>r\<close>.
\<close>

datatype handle = Agent | RpcServer | HttpServer

datatype sink = InmemSink int int | StatsiteSink string | FanoutSink "sink list"

record metrics_Config =
  ServiceName :: string
  EnableHostname :: bool

datatype event =
    Ui_Output string
  | Ui_Info string
  | Ui_Error string
  | SetupLoggers
  | NewInmemSink int int
  | DefaultInmemSignal sink
  | NewStatsiteSink string
  | NewGlobal metrics_Config sink
  | SetupAgent
  | Join "string list"
  | AddService Service
  | AddCheck string Check
  | StartSync
  | LogGate_Flush
  | HandleSignals
  | Shutdown handle "string option"

text \<open>What the three string flags of the flag set hold after a successful parse.\<close>

record cmdFlags =
  flag_log_level :: string
  flag_node :: string
  flag_bind :: string

text \<open>What \<^verbatim>\<open>setupAgent\<close> leaves behind: its error, and whether \<^verbatim>\<open>c.rpcServer\<close> and
  \<^verbatim>\<open>c.httpServer\<close> are set.\<close>

record setup_result =
  setup_err :: "string option"
  rpcServer :: bool
  httpServer :: bool

text \<open>
  The collaborators of the command whose code is not at hand, as parameters: the flag
  package's parser, the host, the runtime, the logger setup (\<open>True\<close>: the log writer it
  returns is not \<^verbatim>\<open>nil\<close>), the metrics library, the agent setup, the reachability of a
  join address and the error a failed join reports, the agent's two registration calls
  (given what has been registered before), the printed form of a check, the banner lines
  over fields the declaration of \<^verbatim>\<open>Config\<close> lacks, the signal handler, and what each
  \<^verbatim>\<open>Shutdown\<close> reports.
\<close>

record env =
  flag_Parse :: "string list \<Rightarrow> string + cmdFlags"
  os_Hostname :: "string + string"
  runtime_GOMAXPROCS :: int
  setupLoggers :: "Config \<Rightarrow> bool"
  metrics_DefaultConfig :: "string \<Rightarrow> metrics_Config"
  metrics_NewStatsiteSink :: "string \<Rightarrow> string option"
  setupAgent :: "Config \<Rightarrow> setup_result"
  join_reachable :: "string \<Rightarrow> bool"
  join_error :: string
  agent_AddService :: "Service list \<Rightarrow> Service \<Rightarrow> string option"
  agent_AddCheck :: "Check list \<Rightarrow> Check \<Rightarrow> string option"
  Sprint_Check :: "Check \<Rightarrow> string"
  banner_rest :: "Config \<Rightarrow> string list"
  handleSignals :: "Config \<Rightarrow> int"
  Shutdown_result :: "handle \<Rightarrow> string option"

text \<open>A run is the value returned and the journal; \<open>emit\<close> puts events in front of
  the journal of what follows them.\<close>

type_synonym run = "int \<times> event list"

definition emit :: "event list \<Rightarrow> run \<Rightarrow> run" where
  "emit evs r = (fst r, evs @ snd r)"

section \<open>The configuration resolver\<close>

text \<open>
  \<^verbatim>\<open>readConfig\<close> from its line \<^verbatim>\<open>if config.NodeName == ""\<close> to its return, for the
  value \<open>config\<close> holds there: the host's name fills an empty node name, a failed lookup
  is reported and gives \<^verbatim>\<open>nil\<close>, and the build fields of the command are copied.
\<close>

definition readConfig_finish :: "env \<Rightarrow> ServiceCommand \<Rightarrow> Config \<Rightarrow> event list \<times> Config option" where
  "readConfig_finish env c config =
     (let stamp = (\<lambda>cfg. cfg\<lparr>Revision := cmd_Revision c, Version := cmd_Version c,
                              VersionPrerelease := cmd_VersionPrerelease c\<rparr>)
      in if NodeName config = '''' then
           (case os_Hostname env of
              Inl err \<Rightarrow> ([Ui_Error (''Error determining hostname: '' @ err)], None)
            | Inr hostname \<Rightarrow> ([], Some (stamp (config\<lparr>NodeName := hostname\<rparr>))))
         else ([], Some (stamp config)))"

text \<open>
  \<^verbatim>\<open>readConfig\<close>. The flag set binds \<^verbatim>\<open>-log-level\<close>, \<^verbatim>\<open>-node\<close> and \<^verbatim>\<open>-bind\<close> to three
  fields of \<open>cmdConfig\<close>; a failed parse gives \<^verbatim>\<open>nil\<close>, after the flag package has called
  the \<^verbatim>\<open>Usage\<close> function the code installs, which writes \<open>Help c\<close>. The two calls of
  \<^verbatim>\<open>MergeConfig\<close> stand inside a comment in the source, so \<open>config\<close> is the default
  configuration and \<open>cmdConfig\<close> is read by nothing.
\<close>

definition readConfig :: "env \<Rightarrow> ServiceCommand \<Rightarrow> event list \<times> Config option" where
  "readConfig env c =
     (case flag_Parse env (args c) of
        Inl err \<Rightarrow> ([Ui_Output (Help c)], None)
      | Inr flags \<Rightarrow>
          (let cmdConfig = zero_Config\<lparr>LogLevel := flag_log_level flags,
                 NodeName := flag_node flags, BindAddr := flag_bind flags\<rparr>;
               config = DefaultConfig
           in readConfig_finish env c config))"

section \<open>Telemetry\<close>

text \<open>\<^verbatim>\<open>time.Second\<close> and \<^verbatim>\<open>time.Minute\<close>, in nanoseconds.\<close>

definition Second :: int where
  "Second = 1000000000"

definition Minute :: int where
  "Minute = 60 * Second"

text \<open>
  The telemetry lines of \<^verbatim>\<open>Run\<close>, from \<^verbatim>\<open>metrics.NewInmemSink\<close> to the end of the
  \<^verbatim>\<open>if config.StatsiteAddr != ""\<close> statement. The flag returned is \<open>False\<close> where the
  source returns 1.
\<close>

definition telemetry :: "env \<Rightarrow> Config \<Rightarrow> event list \<times> bool" where
  "telemetry env config =
     (let inm = InmemSink (10 * Second) Minute;
          metricsConf = metrics_DefaultConfig env ''consul'';
          evs = [NewInmemSink (10 * Second) Minute, DefaultInmemSignal inm]
      in if StatsiteAddr config \<noteq> '''' then
           (case metrics_NewStatsiteSink env (StatsiteAddr config) of
              Some err \<Rightarrow>
                (evs @ [NewStatsiteSink (StatsiteAddr config),
                        Ui_Error (''Failed to start statsite sink. Got: '' @ err)], False)
            | None \<Rightarrow>
                (evs @ [NewStatsiteSink (StatsiteAddr config),
                        NewGlobal metricsConf
                          (FanoutSink [inm, StatsiteSink (StatsiteAddr config)])], True))
         else (evs @ [NewGlobal (metricsConf\<lparr>EnableHostname := False\<rparr>) inm], True))"

section \<open>Join and registration\<close>

text \<open>
  Modelled from the spec: \<^verbatim>\<open>startupJoin\<close>, a method of the command that \<^verbatim>\<open>Run\<close> calls and
  whose code is not among the sources. By the spec, a non-empty initial-join list is
  handed to the clustering subsystem's join operation, which contacts each address;
  no reachable address is a fatal error, one reachable address is enough, and an empty
  list makes no attempt.
\<close>

definition startupJoin :: "env \<Rightarrow> Config \<Rightarrow> event list \<times> string option" where
  "startupJoin env config =
     (if StartJoin config = [] then ([], None)
      else ([Join (StartJoin config)],
            if length (filter (join_reachable env) (StartJoin config)) = 0
            then Some (join_error env) else None))"

text \<open>
  The loop \<^verbatim>\<open>for _, service := range config.Services\<close>: the services registered so far,
  the ones to go; the journal and whether the loop ran to its end.
\<close>

fun register_services :: "env \<Rightarrow> Service list \<Rightarrow> Service list \<Rightarrow> event list \<times> bool" where
  "register_services env regd [] = ([], True)"
| "register_services env regd (service # rest) =
     (case agent_AddService env regd service of
        Some err \<Rightarrow>
          ([AddService service,
            Ui_Error (''Failed to register service '' @ [CHR 0x27] @ Service_Name service
                      @ [CHR 0x27] @ '': '' @ err)], False)
      | None \<Rightarrow>
          (case register_services env (regd @ [service]) rest of
             (evs, ok) \<Rightarrow> (AddService service # evs, ok)))"

text \<open>The loop \<^verbatim>\<open>for _, check := range config.Checks\<close>, in the same way.\<close>

fun register_checks :: "env \<Rightarrow> Config \<Rightarrow> Check list \<Rightarrow> Check list \<Rightarrow> event list \<times> bool" where
  "register_checks env config regd [] = ([], True)"
| "register_checks env config regd (check # rest) =
     (case agent_AddCheck env regd check of
        Some err \<Rightarrow>
          ([AddCheck (NodeName config) check,
            Ui_Error (''Failed to register check '' @ [CHR 0x27] @ Check_Name check
                      @ [CHR 0x27] @ '': '' @ err @ '' '' @ Sprint_Check env check)], False)
      | None \<Rightarrow>
          (case register_checks env config (regd @ [check]) rest of
             (evs, ok) \<Rightarrow> (AddCheck (NodeName config) check # evs, ok)))"

section \<open>Run\<close>

text \<open>
  \<^verbatim>\<open>Run\<close> from \<^verbatim>\<open>c.agent.StartSync()\<close> to \<^verbatim>\<open>return c.handleSignals(config)\<close>: the banner
  (its first two lines are written out, the lines over undeclared fields come from the
  environment), the release of the log gate, and the wait for a signal.
\<close>

definition Run_registered :: "env \<Rightarrow> Config \<Rightarrow> run" where
  "Run_registered env config =
     (handleSignals env config,
      [StartSync,
       Ui_Output ''Consul agent running!'',
       Ui_Info (''     Node name: '' @ [CHR 0x27] @ NodeName config @ [CHR 0x27])]
      @ map Ui_Info (banner_rest env config)
      @ [Ui_Info '''',
         Ui_Output (''Log data will now stream in as it occurs:'' @ [CHR 0x0A]),
         LogGate_Flush,
         HandleSignals])"

text \<open>
  \<^verbatim>\<open>Run\<close> from the loop over the services to its last line: the two registration
  loops, each left with 1 at the first error, and then the lines above.
\<close>

definition Run_joined :: "env \<Rightarrow> Config \<Rightarrow> run" where
  "Run_joined env config =
     (case register_services env [] (Services config) of
        (sevs, False) \<Rightarrow> (1, sevs)
      | (sevs, True) \<Rightarrow>
          emit sevs
            (case register_checks env config [] (Checks config) of
               (cevs, False) \<Rightarrow> (1, cevs)
             | (cevs, True) \<Rightarrow> emit cevs (Run_registered env config)))"

text \<open>
  \<^verbatim>\<open>Run\<close> from \<^verbatim>\<open>c.startupJoin(config)\<close> to its last line: everything that runs once the
  three \<^verbatim>\<open>defer\<close> statements have been passed.
\<close>

definition Run_started :: "env \<Rightarrow> Config \<Rightarrow> run" where
  "Run_started env config =
     (case startupJoin env config of
        (jevs, Some err) \<Rightarrow> (1, jevs @ [Ui_Error err])
      | (jevs, None) \<Rightarrow> emit jevs (Run_joined env config))"

text \<open>
  The three \<^verbatim>\<open>defer\<close> statements after a successful \<^verbatim>\<open>setupAgent\<close>, as the stack they
  build, the last deferred call first: the agent's shutdown without a test, the RPC
  server's and then the HTTP server's if the handle is not \<^verbatim>\<open>nil\<close>. When \<^verbatim>\<open>Run\<close>
  returns, the deferred calls run from the top of the stack, each whatever the ones
  before it reported: nothing reads what a deferred \<^verbatim>\<open>Shutdown\<close> returns.
\<close>

definition deferred :: "setup_result \<Rightarrow> handle list" where
  "deferred sr =
     (let d0 = [Agent];
          d1 = (if rpcServer sr then RpcServer # d0 else d0);
          d2 = (if httpServer sr then HttpServer # d1 else d1)
      in d2)"

fun run_deferred :: "env \<Rightarrow> handle list \<Rightarrow> event list" where
  "run_deferred env [] = []"
| "run_deferred env (h # stack) = Shutdown h (Shutdown_result env h) # run_deferred env stack"

text \<open>The \<^verbatim>\<open>GOMAXPROCS\<close> check of \<^verbatim>\<open>Run\<close>: a warning through the Ui, and no more.\<close>

definition GOMAXPROCS_warning :: "env \<Rightarrow> event list" where
  "GOMAXPROCS_warning env =
     (if runtime_GOMAXPROCS env = 1
      then [Ui_Error ''WARNING: It is highly recommended to set GOMAXPROCS higher than 1'']
      else [])"

text \<open>
  \<^verbatim>\<open>Run\<close> from the \<^verbatim>\<open>GOMAXPROCS\<close> check on, for a configuration that is not \<^verbatim>\<open>nil\<close>. A
  failure of the loggers, of the telemetry or of \<^verbatim>\<open>setupAgent\<close> returns 1 before any
  \<^verbatim>\<open>defer\<close> statement is reached; every later return runs the deferred calls.
\<close>

definition Run_config :: "env \<Rightarrow> Config \<Rightarrow> run" where
  "Run_config env config =
     emit (GOMAXPROCS_warning env)
       (emit [SetupLoggers]
          (if \<not> setupLoggers env config then (1, [])
           else
             (case telemetry env config of
                (tevs, False) \<Rightarrow> (1, tevs)
              | (tevs, True) \<Rightarrow>
                  emit tevs
                    (emit [SetupAgent]
                       (case setup_err (setupAgent env config) of
                          Some err \<Rightarrow> (1, [])
                        | None \<Rightarrow>
                            (case Run_started env config of
                               (code, evs) \<Rightarrow>
                                 (code, evs @ run_deferred env
                                                (deferred (setupAgent env config)))))))))"

text \<open>\<^verbatim>\<open>Run\<close>: the value returned and the journal of the whole run.\<close>

definition Run :: "env \<Rightarrow> ServiceCommand \<Rightarrow> string list \<Rightarrow> run" where
  "Run env c as =
     (case readConfig env (c\<lparr>args := as\<rparr>) of
        (evs, None) \<Rightarrow> (1, evs)
      | (evs, Some config) \<Rightarrow> emit evs (Run_config env config))"

section \<open>The log gate\<close>

text \<open>
  Modelled from the spec: the log gate that \<^verbatim>\<open>setupLoggers\<close> returns and \<^verbatim>\<open>Run\<close> flushes;
  neither its code nor that of \<^verbatim>\<open>setupLoggers\<close> is among the sources. By the spec the
  gate is a buffering sink with two states: gated, where a write is appended to an
  internal ordered sequence and nothing goes downstream, and released, where a write is
  forwarded at once; the first flush emits the buffered entries in arrival order and
  releases the gate, a later flush does nothing. The spec's \<^verbatim>\<open>write\<close> and \<^verbatim>\<open>flush\<close> are
  \<open>gate_write\<close> and \<open>gate_flush\<close> here.
\<close>

record gate =
  buf :: "string list"
  released :: bool
  downstream :: "string list"

definition new_gate :: gate where
  "new_gate = \<lparr>buf = [], released = False, downstream = []\<rparr>"

definition gate_write :: "string \<Rightarrow> gate \<Rightarrow> gate" where
  "gate_write entry g =
     (if released g then g\<lparr>downstream := downstream g @ [entry]\<rparr>
      else g\<lparr>buf := buf g @ [entry]\<rparr>)"

definition gate_flush :: "gate \<Rightarrow> gate" where
  "gate_flush g =
     (if released g then g
      else g\<lparr>downstream := downstream g @ buf g, buf := [], released := True\<rparr>)"

datatype gate_op = Write string | Flush

fun gate_run :: "gate_op list \<Rightarrow> gate \<Rightarrow> gate" where
  "gate_run [] g = g"
| "gate_run (Write entry # ops) g = gate_run ops (gate_write entry g)"
| "gate_run (Flush # ops) g = gate_run ops (gate_flush g)"

text \<open>The entries of the writes among a sequence of operations, in order.\<close>

fun written :: "gate_op list \<Rightarrow> string list" where
  "written [] = []"
| "written (Write entry # ops) = entry # written ops"
| "written (Flush # ops) = written ops"

section \<open>The agent setup\<close>





section \<open>Sample inputs\<close>

text \<open>
  An environment in which every collaborator answers, used to evaluate the
  definitions above on concrete inputs: a host called \<open>host1\<close>, a flag parser given by
  its answers on three argument lists, a statsite address that cannot be dialled, one
  reachable join address, a service name and a check name the agent refuses, and an
  HTTP server whose shutdown reports an error.
\<close>

definition sample_env :: env where
  "sample_env =
     \<lparr>flag_Parse = (\<lambda>as.
          if as = [''-node'', ''alpha'']
            then Inr \<lparr>flag_log_level = '''', flag_node = ''alpha'', flag_bind = ''''\<rparr>
          else if as = [''-log-level=DEBUG'', ''-bind'', ''127.0.0.1'']
            then Inr \<lparr>flag_log_level = ''DEBUG'', flag_node = '''', flag_bind = ''127.0.0.1''\<rparr>
          else if as = [''-bogus'']
            then Inl ''flag provided but not defined: -bogus''
          else Inr \<lparr>flag_log_level = '''', flag_node = '''', flag_bind = ''''\<rparr>),
      os_Hostname = Inr ''host1'',
      runtime_GOMAXPROCS = 4,
      setupLoggers = (\<lambda>config. True),
      metrics_DefaultConfig = (\<lambda>name. \<lparr>ServiceName = name, EnableHostname = True\<rparr>),
      metrics_NewStatsiteSink = (\<lambda>addr. if addr = ''down:8125'' then Some ''dial failed'' else None),
      setupAgent = (\<lambda>config. \<lparr>setup_err = None, rpcServer = True, httpServer = True\<rparr>),
      join_reachable = (\<lambda>addr. addr = ''10.0.0.1''),
      join_error = ''no address could be reached'',
      agent_AddService = (\<lambda>regd service.
          if Service_Name service = ''db'' then Some ''refused'' else None),
      agent_AddCheck = (\<lambda>regd check.
          if Check_Name check = ''disk'' then Some ''refused'' else None),
      Sprint_Check = Check_body,
      banner_rest = (\<lambda>config. []),
      handleSignals = (\<lambda>config. 0),
      Shutdown_result = (\<lambda>h. if h = HttpServer then Some ''listener already closed'' else None)\<rparr>"

definition sample_cmd :: ServiceCommand where
  "sample_cmd = \<lparr>cmd_Revision = ''abc123'', cmd_Version = ''0.1.0'',
                  cmd_VersionPrerelease = ''dev'', args = []\<rparr>"

text \<open>The resolved configuration of \<open>sample_cmd\<close> on \<open>host1\<close>, and two services and
  two checks to register.\<close>

definition sample_config :: Config where
  "sample_config =
     DefaultConfig\<lparr>NodeName := ''host1'', Revision := ''abc123'', Version := ''0.1.0'',
       VersionPrerelease := ''dev''\<rparr>"

definition web :: Service where
  "web = \<lparr>Service_Name = ''web'', Service_body = ''port 80''\<rparr>"

definition db :: Service where
  "db = \<lparr>Service_Name = ''db'', Service_body = ''port 5432''\<rparr>"

definition cache :: Service where
  "cache = \<lparr>Service_Name = ''cache'', Service_body = ''port 11211''\<rparr>"

definition ping :: Check where
  "ping = \<lparr>Check_Name = ''ping'', Check_body = ''ttl 10s''\<rparr>"

definition disk :: Check where
  "disk = \<lparr>Check_Name = ''disk'', Check_body = ''script df''\<rparr>"


section \<open>Facts about the journal and the resolver\<close>

lemma fst_emit [simp]: "fst (emit evs r) = fst r"
  by (simp add: emit_def)

lemma snd_emit [simp]: "snd (emit evs r) = evs @ snd r"
  by (simp add: emit_def)

lemma emit_pair: "emit evs (code, tr) = (code, evs @ tr)"
  by (simp add: emit_def)

lemma readConfig_parsed:
  "flag_Parse env (args c) = Inr flags \<Longrightarrow> readConfig env c = readConfig_finish env c DefaultConfig"
  by (simp add: readConfig_def)

lemma NodeName_DefaultConfig: "NodeName DefaultConfig = ''''"
  by (simp add: DefaultConfig_def zero_Config_def)

text \<open>
  Claim C9. The default configuration has log level \<open>INFO\<close>, bind address \<open>0.0.0.0\<close>,
  HTTP port 8500 and server RPC port 8300, and every configuration \<^verbatim>\<open>readConfig\<close> returns
  carries these four values.
\<close>

theorem DefaultConfig_carried:
  "LogLevel DefaultConfig = ''INFO'' \<and> BindAddr DefaultConfig = ''0.0.0.0''
   \<and> HTTP (Ports DefaultConfig) = 8500 \<and> Server (Ports DefaultConfig) = 8300
   \<and> (\<forall>evs config. readConfig env c = (evs, Some config) \<longrightarrow>
         LogLevel config = ''INFO'' \<and> BindAddr config = ''0.0.0.0''
         \<and> HTTP (Ports config) = 8500 \<and> Server (Ports config) = 8300)"
proof -
  have d: "LogLevel DefaultConfig = ''INFO'' \<and> BindAddr DefaultConfig = ''0.0.0.0''
      \<and> HTTP (Ports DefaultConfig) = 8500 \<and> Server (Ports DefaultConfig) = 8300"
    by (simp add: DefaultConfig_def zero_Config_def)
  have "LogLevel config = ''INFO'' \<and> BindAddr config = ''0.0.0.0''
         \<and> HTTP (Ports config) = 8500 \<and> Server (Ports config) = 8300"
    if r: "readConfig env c = (evs, Some config)" for evs config
  proof (cases "flag_Parse env (args c)")
    case (Inl err)
    with r show ?thesis by (simp add: readConfig_def)
  next
    case (Inr flags)
    with r have "readConfig_finish env c DefaultConfig = (evs, Some config)"
      by (simp add: readConfig_parsed)
    then show ?thesis
      using d by (auto simp: readConfig_finish_def Let_def split: if_splits sum.splits)
  qed
  with d show ?thesis by blast
qed

lemma sample_readConfig: "readConfig sample_env sample_cmd = ([], Some sample_config)"
  by (simp add: readConfig_def readConfig_finish_def sample_env_def sample_cmd_def
      sample_config_def DefaultConfig_def zero_Config_def)

theorem DefaultConfig_carried_witness:
  "readConfig sample_env sample_cmd = ([], Some sample_config)
   \<and> LogLevel sample_config = ''INFO'' \<and> BindAddr sample_config = ''0.0.0.0''
   \<and> HTTP (Ports sample_config) = 8500 \<and> Server (Ports sample_config) = 8300"
  using DefaultConfig_carried [of sample_env sample_cmd] sample_readConfig by blast

lemma Run_no_config:
  "readConfig env (c\<lparr>args := as\<rparr>) = (evs, None) \<Longrightarrow> Run env c as = (1, evs)"
  by (simp add: Run_def)

text \<open>
  Claim C4. Where the node name is empty when \<^verbatim>\<open>readConfig\<close> reaches its test, the
  configuration returned has the host's name as node name; if the lookup of the host's
  name fails, \<^verbatim>\<open>readConfig\<close> reports the error and returns \<^verbatim>\<open>nil\<close>, and \<^verbatim>\<open>Run\<close> returns 1.
  The first two parts are about the lines from the test on, for any configuration; the
  last two about \<^verbatim>\<open>readConfig\<close> and \<^verbatim>\<open>Run\<close> as called, where the node name is always
  empty at the test.
\<close>

theorem readConfig_node_name:
  "(NodeName config = '''' \<and> os_Hostname env = Inr hostname \<longrightarrow>
      readConfig_finish env c config =
        ([], Some (config\<lparr>NodeName := hostname, Revision := cmd_Revision c,
                     Version := cmd_Version c, VersionPrerelease := cmd_VersionPrerelease c\<rparr>)))
   \<and> (NodeName config = '''' \<and> os_Hostname env = Inl err \<longrightarrow>
      readConfig_finish env c config =
        ([Ui_Error (''Error determining hostname: '' @ err)], None))
   \<and> (flag_Parse env as = Inr flags \<and> os_Hostname env = Inr hostname \<longrightarrow>
      (\<exists>config'. readConfig env (c\<lparr>args := as\<rparr>) = ([], Some config')
         \<and> NodeName config' = hostname))
   \<and> (flag_Parse env as = Inr flags \<and> os_Hostname env = Inl err \<longrightarrow>
      readConfig env (c\<lparr>args := as\<rparr>) =
        ([Ui_Error (''Error determining hostname: '' @ err)], None)
      \<and> Run env c as = (1, [Ui_Error (''Error determining hostname: '' @ err)]))"
proof (intro conjI impI)
  assume "NodeName config = '''' \<and> os_Hostname env = Inr hostname"
  then show "readConfig_finish env c config =
        ([], Some (config\<lparr>NodeName := hostname, Revision := cmd_Revision c,
                     Version := cmd_Version c, VersionPrerelease := cmd_VersionPrerelease c\<rparr>))"
    by (simp add: readConfig_finish_def)
next
  assume "NodeName config = '''' \<and> os_Hostname env = Inl err"
  then show "readConfig_finish env c config =
        ([Ui_Error (''Error determining hostname: '' @ err)], None)"
    by (simp add: readConfig_finish_def)
next
  assume a: "flag_Parse env as = Inr flags \<and> os_Hostname env = Inr hostname"
  then have "readConfig env (c\<lparr>args := as\<rparr>) = readConfig_finish env (c\<lparr>args := as\<rparr>) DefaultConfig"
    by (simp add: readConfig_parsed)
  with a show "\<exists>config'. readConfig env (c\<lparr>args := as\<rparr>) = ([], Some config')
         \<and> NodeName config' = hostname"
    by (simp add: readConfig_finish_def NodeName_DefaultConfig)
next
  assume a: "flag_Parse env as = Inr flags \<and> os_Hostname env = Inl err"
  then have "readConfig env (c\<lparr>args := as\<rparr>) = readConfig_finish env (c\<lparr>args := as\<rparr>) DefaultConfig"
    by (simp add: readConfig_parsed)
  with a show r: "readConfig env (c\<lparr>args := as\<rparr>) =
        ([Ui_Error (''Error determining hostname: '' @ err)], None)"
    by (simp add: readConfig_finish_def NodeName_DefaultConfig)
  show "Run env c as = (1, [Ui_Error (''Error determining hostname: '' @ err)])"
    using r by (rule Run_no_config)
qed

theorem readConfig_node_name_witness:
  "readConfig sample_env (sample_cmd\<lparr>args := []\<rparr>) = ([], Some sample_config)
   \<and> NodeName sample_config = ''host1''
   \<and> readConfig (sample_env\<lparr>os_Hostname := Inl ''no hostname''\<rparr>) (sample_cmd\<lparr>args := []\<rparr>)
       = ([Ui_Error ''Error determining hostname: no hostname''], None)
   \<and> Run (sample_env\<lparr>os_Hostname := Inl ''no hostname''\<rparr>) sample_cmd []
       = (1, [Ui_Error ''Error determining hostname: no hostname''])"
proof -
  have p: "flag_Parse sample_env [] = Inr \<lparr>flag_log_level = '''', flag_node = '''', flag_bind = ''''\<rparr>"
    and h: "os_Hostname sample_env = Inr ''host1''"
    by (simp_all add: sample_env_def)
  have c: "sample_cmd\<lparr>args := []\<rparr> = sample_cmd"
    by (simp add: sample_cmd_def)
  have n: "NodeName sample_config = ''host1''"
    by (simp add: sample_config_def)
  have p': "flag_Parse (sample_env\<lparr>os_Hostname := Inl ''no hostname''\<rparr>) [] =
       Inr \<lparr>flag_log_level = '''', flag_node = '''', flag_bind = ''''\<rparr>"
    and h': "os_Hostname (sample_env\<lparr>os_Hostname := Inl ''no hostname''\<rparr>) = Inl ''no hostname''"
    by (simp_all add: sample_env_def)
  show ?thesis
    using readConfig_node_name [of DefaultConfig sample_env "''host1''" sample_cmd "''x''" "[]"
        "\<lparr>flag_log_level = '''', flag_node = '''', flag_bind = ''''\<rparr>"]
      readConfig_node_name [of DefaultConfig "sample_env\<lparr>os_Hostname := Inl ''no hostname''\<rparr>"
        "''x''" sample_cmd "''no hostname''" "[]"
        "\<lparr>flag_log_level = '''', flag_node = '''', flag_bind = ''''\<rparr>"]
      p h p' h' n sample_readConfig c
    by simp
qed

text \<open>
  Claim C6, at two inputs where the code does not do what the claim says. The flag
  package parses \<^verbatim>\<open>-node alpha\<close> into the node name \<open>alpha\<close>, and
  \<^verbatim>\<open>-log-level=DEBUG -bind 127.0.0.1\<close> into the log level \<open>DEBUG\<close> and the bind address
  \<open>127.0.0.1\<close>; the configuration \<^verbatim>\<open>readConfig\<close> returns has the host's name as node name,
  the log level \<open>INFO\<close> and the bind address \<open>0.0.0.0\<close> of the defaults, as with no
  flag at all.
\<close>

theorem readConfig_drops_flags:
  "flag_Parse sample_env [''-node'', ''alpha'']
     = Inr \<lparr>flag_log_level = '''', flag_node = ''alpha'', flag_bind = ''''\<rparr>
   \<and> readConfig sample_env (sample_cmd\<lparr>args := [''-node'', ''alpha'']\<rparr>)
     = ([], Some sample_config)
   \<and> NodeName sample_config = ''host1''
   \<and> flag_Parse sample_env [''-log-level=DEBUG'', ''-bind'', ''127.0.0.1'']
     = Inr \<lparr>flag_log_level = ''DEBUG'', flag_node = '''', flag_bind = ''127.0.0.1''\<rparr>
   \<and> readConfig sample_env (sample_cmd\<lparr>args := [''-log-level=DEBUG'', ''-bind'', ''127.0.0.1'']\<rparr>)
     = ([], Some sample_config)
   \<and> LogLevel sample_config = ''INFO'' \<and> BindAddr sample_config = ''0.0.0.0''"
  by (simp add: readConfig_def readConfig_finish_def sample_env_def sample_cmd_def
      sample_config_def DefaultConfig_def zero_Config_def)

section \<open>The log gate: what goes downstream\<close>

lemma gate_run_append: "gate_run (xs @ ys) g = gate_run ys (gate_run xs g)"
  by (induction xs g rule: gate_run.induct) simp_all

lemma gate_run_gated:
  "\<not> released g \<Longrightarrow> gate_run (map Write es) g = g\<lparr>buf := buf g @ es\<rparr>"
  by (induction es arbitrary: g) (simp_all add: gate_write_def)

lemma gate_run_released:
  "released g \<Longrightarrow> gate_run ops g = g\<lparr>downstream := downstream g @ written ops\<rparr>"
  by (induction ops g rule: gate_run.induct) (simp_all add: gate_write_def gate_flush_def)

lemma gate_first_flush:
  "gate_run (map Write es @ [Flush]) new_gate = \<lparr>buf = [], released = True, downstream = es\<rparr>"
  by (simp add: gate_run_append gate_run_gated new_gate_def gate_flush_def)

lemma gate_after_flush:
  "gate_run (map Write es @ Flush # ops) new_gate =
     \<lparr>buf = [], released = True, downstream = es @ written ops\<rparr>"
proof -
  have "gate_run (map Write es @ Flush # ops) new_gate =
      gate_run ops (gate_run (map Write es @ [Flush]) new_gate)"
    using gate_run_append [of "map Write es @ [Flush]" ops new_gate] by simp
  then show ?thesis
    by (simp add: gate_first_flush gate_run_released)
qed

lemma written_append: "written (xs @ ys) = written xs @ written ys"
  by (induction xs rule: written.induct) simp_all

text \<open>
  Claim C8. Any sequence of operations on a new gate is a sequence of writes, followed
  or not by a first flush and further operations. Writes before the first flush are
  buffered and nothing is downstream; the first flush puts them downstream in arrival
  order; after it, whatever operations \<open>ops\<close> follow, downstream holds the entries written
  before the flush once, then the entries written after it, and the buffer is empty; a
  further write is appended downstream at once, and a further flush changes nothing.
\<close>

theorem log_gate_order:
  "gate_run (map Write es) new_gate = \<lparr>buf = es, released = False, downstream = []\<rparr>
   \<and> downstream (gate_run (map Write es @ [Flush]) new_gate) = es
   \<and> gate_run (map Write es @ Flush # ops) new_gate =
       \<lparr>buf = [], released = True, downstream = es @ written ops\<rparr>
   \<and> downstream (gate_run (map Write es @ Flush # ops @ [Write entry]) new_gate) =
       downstream (gate_run (map Write es @ Flush # ops) new_gate) @ [entry]
   \<and> gate_run (map Write es @ Flush # ops @ [Flush]) new_gate =
       gate_run (map Write es @ Flush # ops) new_gate"
proof (intro conjI)
  show "gate_run (map Write es) new_gate = \<lparr>buf = es, released = False, downstream = []\<rparr>"
    by (simp add: gate_run_gated new_gate_def)
  show "downstream (gate_run (map Write es @ [Flush]) new_gate) = es"
    by (simp add: gate_first_flush)
  show "gate_run (map Write es @ Flush # ops) new_gate =
       \<lparr>buf = [], released = True, downstream = es @ written ops\<rparr>"
    by (rule gate_after_flush)
  show "downstream (gate_run (map Write es @ Flush # ops @ [Write entry]) new_gate) =
       downstream (gate_run (map Write es @ Flush # ops) new_gate) @ [entry]"
    by (simp add: gate_after_flush written_append)
  show "gate_run (map Write es @ Flush # ops @ [Flush]) new_gate =
       gate_run (map Write es @ Flush # ops) new_gate"
    by (simp add: gate_after_flush written_append)
qed

theorem log_gate_order_witness:
  "gate_run [Write ''a'', Write ''b''] new_gate
     = \<lparr>buf = [''a'', ''b''], released = False, downstream = []\<rparr>
   \<and> gate_run [Write ''a'', Write ''b'', Flush, Write ''c'', Flush, Write ''d''] new_gate
     = \<lparr>buf = [], released = True, downstream = [''a'', ''b'', ''c'', ''d'']\<rparr>"
  using log_gate_order [of "[''a'', ''b'']" "[Write ''c'', Flush, Write ''d'']" "''e''"]
  by (simp add: gate_write_def gate_flush_def new_gate_def)

section \<open>Facts about Run\<close>

lemma run_deferred_deferred:
  "run_deferred env (deferred sr) =
     (if httpServer sr then [Shutdown HttpServer (Shutdown_result env HttpServer)] else [])
     @ (if rpcServer sr then [Shutdown RpcServer (Shutdown_result env RpcServer)] else [])
     @ [Shutdown Agent (Shutdown_result env Agent)]"
  by (simp add: deferred_def)

lemma Run_config_started:
  assumes "setupLoggers env config" and "snd (telemetry env config)"
    and "setup_err (setupAgent env config) = None"
  shows "Run_config env config =
     (fst (Run_started env config),
      GOMAXPROCS_warning env @ [SetupLoggers] @ fst (telemetry env config) @ [SetupAgent]
      @ snd (Run_started env config) @ run_deferred env (deferred (setupAgent env config)))"
  using assms
  by (cases "telemetry env config"; cases "Run_started env config")
     (simp add: Run_config_def emit_def)

lemma Run_config_loggers_fail:
  "\<not> setupLoggers env config \<Longrightarrow>
     Run_config env config = (1, GOMAXPROCS_warning env @ [SetupLoggers])"
  by (simp add: Run_config_def emit_def)

lemma Run_config_telemetry_fail:
  "setupLoggers env config \<Longrightarrow> \<not> snd (telemetry env config) \<Longrightarrow>
     Run_config env config =
       (1, GOMAXPROCS_warning env @ [SetupLoggers] @ fst (telemetry env config))"
  by (cases "telemetry env config") (simp add: Run_config_def emit_def)

lemma Run_config_setup_fail:
  "setupLoggers env config \<Longrightarrow> snd (telemetry env config) \<Longrightarrow>
   setup_err (setupAgent env config) = Some err \<Longrightarrow>
     Run_config env config =
       (1, GOMAXPROCS_warning env @ [SetupLoggers] @ fst (telemetry env config) @ [SetupAgent])"
  by (cases "telemetry env config") (simp add: Run_config_def emit_def)

text \<open>The kinds of events each part of \<^verbatim>\<open>Run\<close> writes into the journal.\<close>

lemma GOMAXPROCS_warning_events:
  "e \<in> set (GOMAXPROCS_warning env) \<Longrightarrow> \<exists>m. e = Ui_Error m"
  by (simp add: GOMAXPROCS_warning_def split: if_splits)

lemma telemetry_events:
  "e \<in> set (fst (telemetry env config)) \<Longrightarrow>
     (\<exists>m. e = Ui_Error m) \<or> (\<exists>a b. e = NewInmemSink a b) \<or> (\<exists>s. e = DefaultInmemSignal s)
     \<or> (\<exists>a. e = NewStatsiteSink a) \<or> (\<exists>mc s. e = NewGlobal mc s)"
  by (auto simp: telemetry_def Let_def split: if_splits option.splits)

lemma startupJoin_events:
  "e \<in> set (fst (startupJoin env config)) \<Longrightarrow> e = Join (StartJoin config)"
  by (simp add: startupJoin_def split: if_splits)

lemma register_services_Cons:
  "register_services env regd (s # ss) =
     (case agent_AddService env regd s of
        Some err \<Rightarrow>
          ([AddService s,
            Ui_Error (''Failed to register service '' @ [CHR 0x27] @ Service_Name s
                      @ [CHR 0x27] @ '': '' @ err)], False)
      | None \<Rightarrow>
          (AddService s # fst (register_services env (regd @ [s]) ss),
           snd (register_services env (regd @ [s]) ss)))"
  by (simp split: option.splits prod.splits)

lemma register_checks_Cons:
  "register_checks env config regd (c # cs) =
     (case agent_AddCheck env regd c of
        Some err \<Rightarrow>
          ([AddCheck (NodeName config) c,
            Ui_Error (''Failed to register check '' @ [CHR 0x27] @ Check_Name c
                      @ [CHR 0x27] @ '': '' @ err @ '' '' @ Sprint_Check env c)], False)
      | None \<Rightarrow>
          (AddCheck (NodeName config) c # fst (register_checks env config (regd @ [c]) cs),
           snd (register_checks env config (regd @ [c]) cs)))"
  by (simp split: option.splits prod.splits)

lemma register_services_events:
  "e \<in> set (fst (register_services env regd ss)) \<Longrightarrow>
     (\<exists>m. e = Ui_Error m) \<or> (\<exists>s. e = AddService s)"
  by (induction ss arbitrary: regd)
     (auto simp: register_services_Cons simp del: register_services.simps(2)
           split: option.splits)

lemma register_checks_events:
  "e \<in> set (fst (register_checks env config regd cs)) \<Longrightarrow>
     (\<exists>m. e = Ui_Error m) \<or> (\<exists>n c. e = AddCheck n c)"
  by (induction cs arbitrary: regd)
     (auto simp: register_checks_Cons simp del: register_checks.simps(2)
           split: option.splits)

lemma register_services_ok:
  "snd (register_services env regd ss) \<Longrightarrow>
     fst (register_services env regd ss) = map AddService ss"
  by (induction ss arbitrary: regd)
     (auto simp: register_services_Cons simp del: register_services.simps(2)
           split: option.splits)

lemma register_checks_ok:
  "snd (register_checks env config regd cs) \<Longrightarrow>
     fst (register_checks env config regd cs) = map (AddCheck (NodeName config)) cs"
  by (induction cs arbitrary: regd)
     (auto simp: register_checks_Cons simp del: register_checks.simps(2)
           split: option.splits)

lemma Run_joined_cases:
  "Run_joined env config =
     (if \<not> snd (register_services env [] (Services config))
        then (1, fst (register_services env [] (Services config)))
      else if \<not> snd (register_checks env config [] (Checks config))
        then (1, fst (register_services env [] (Services config))
                 @ fst (register_checks env config [] (Checks config)))
      else (handleSignals env config,
            fst (register_services env [] (Services config))
            @ fst (register_checks env config [] (Checks config))
            @ snd (Run_registered env config)))"
  by (cases "register_services env [] (Services config)";
      cases "register_checks env config [] (Checks config)")
     (simp add: Run_joined_def emit_def Run_registered_def)

lemma Run_started_cases:
  "Run_started env config =
     (case snd (startupJoin env config) of
        Some err \<Rightarrow> (1, fst (startupJoin env config) @ [Ui_Error err])
      | None \<Rightarrow> (fst (Run_joined env config),
                  fst (startupJoin env config) @ snd (Run_joined env config)))"
  by (cases "startupJoin env config") (simp add: Run_started_def emit_def split: option.splits)

lemma no_Shutdown_before:
  "Shutdown h r \<notin> set (GOMAXPROCS_warning env @ [SetupLoggers] @ fst (telemetry env config)
      @ [SetupAgent] @ snd (Run_started env config))"
proof -
  have 1: "Shutdown h r \<notin> set (GOMAXPROCS_warning env)"
    using GOMAXPROCS_warning_events [of "Shutdown h r" env] by auto
  have 2: "Shutdown h r \<notin> set (fst (telemetry env config))"
    using telemetry_events [of "Shutdown h r" env config] by auto
  have 3: "Shutdown h r \<notin> set (fst (startupJoin env config))"
    using startupJoin_events [of "Shutdown h r" env config] by auto
  have 4: "Shutdown h r \<notin> set (fst (register_services env [] (Services config)))"
    using register_services_events [of "Shutdown h r" env "[]" "Services config"] by auto
  have 5: "Shutdown h r \<notin> set (fst (register_checks env config [] (Checks config)))"
    using register_checks_events [of "Shutdown h r" env config "[]" "Checks config"] by auto
  have 6: "Shutdown h r \<notin> set (snd (Run_registered env config))"
    by (auto simp: Run_registered_def)
  have 7: "Shutdown h r \<notin> set (snd (Run_joined env config))"
    using 4 5 6 by (simp add: Run_joined_cases)
  have 8: "Shutdown h r \<notin> set (snd (Run_started env config))"
    using 3 7 by (simp add: Run_started_cases split: option.splits)
  show ?thesis using 1 2 8 by simp
qed

lemma Run_started_success:
  assumes "snd (startupJoin env config) = None"
    and "snd (register_services env [] (Services config))"
    and "snd (register_checks env config [] (Checks config))"
  shows "Run_started env config =
     (handleSignals env config,
      fst (startupJoin env config) @ map AddService (Services config)
      @ map (AddCheck (NodeName config)) (Checks config) @ snd (Run_registered env config))"
  using assms
  by (simp add: Run_started_cases Run_joined_cases register_services_ok register_checks_ok)

lemma last_Run_registered: "last (snd (Run_registered env config)) = HandleSignals"
  by (simp add: Run_registered_def)

lemma Run_registered_nonempty: "snd (Run_registered env config) \<noteq> []"
  by (simp add: Run_registered_def)

text \<open>
  Claim C1. Once \<^verbatim>\<open>setupAgent\<close> has succeeded, whatever way \<^verbatim>\<open>Run\<close> then returns, its
  journal ends with the shutdowns of the handles it holds, in the reverse of the order
  they were acquired: the HTTP server's if that handle is not \<^verbatim>\<open>nil\<close>, then the RPC
  server's if that handle is not \<^verbatim>\<open>nil\<close>, then the agent's; a handle that is \<^verbatim>\<open>nil\<close> gets
  no call. Each call is made whatever the earlier ones reported (the results are the
  environment's, any values). No shutdown is called before that point, and when join
  and registration succeed the shutdowns come right after \<^verbatim>\<open>handleSignals\<close> has returned
  the value \<^verbatim>\<open>Run\<close> returns.
\<close>

theorem shutdown_reverse_order:
  assumes "setupLoggers env config" and "snd (telemetry env config)"
    and "setup_err (setupAgent env config) = None"
  shows "snd (Run_config env config) =
      (GOMAXPROCS_warning env @ [SetupLoggers] @ fst (telemetry env config) @ [SetupAgent]
       @ snd (Run_started env config))
      @ (if httpServer (setupAgent env config)
         then [Shutdown HttpServer (Shutdown_result env HttpServer)] else [])
      @ (if rpcServer (setupAgent env config)
         then [Shutdown RpcServer (Shutdown_result env RpcServer)] else [])
      @ [Shutdown Agent (Shutdown_result env Agent)]
    \<and> (\<forall>h r. Shutdown h r \<notin> set (GOMAXPROCS_warning env @ [SetupLoggers]
            @ fst (telemetry env config) @ [SetupAgent] @ snd (Run_started env config)))
    \<and> (snd (startupJoin env config) = None
         \<and> snd (register_services env [] (Services config))
         \<and> snd (register_checks env config [] (Checks config))
       \<longrightarrow> fst (Run_config env config) = handleSignals env config
           \<and> last (snd (Run_started env config)) = HandleSignals)"
proof (intro conjI)
  show "snd (Run_config env config) =
      (GOMAXPROCS_warning env @ [SetupLoggers] @ fst (telemetry env config) @ [SetupAgent]
       @ snd (Run_started env config))
      @ (if httpServer (setupAgent env config)
         then [Shutdown HttpServer (Shutdown_result env HttpServer)] else [])
      @ (if rpcServer (setupAgent env config)
         then [Shutdown RpcServer (Shutdown_result env RpcServer)] else [])
      @ [Shutdown Agent (Shutdown_result env Agent)]"
    using assms by (simp add: Run_config_started run_deferred_deferred)
  show "\<forall>h r. Shutdown h r \<notin> set (GOMAXPROCS_warning env @ [SetupLoggers]
            @ fst (telemetry env config) @ [SetupAgent] @ snd (Run_started env config))"
    using no_Shutdown_before by blast
  show "snd (startupJoin env config) = None
         \<and> snd (register_services env [] (Services config))
         \<and> snd (register_checks env config [] (Checks config))
       \<longrightarrow> fst (Run_config env config) = handleSignals env config
           \<and> last (snd (Run_started env config)) = HandleSignals"
    using assms
    by (simp add: Run_config_started Run_started_success last_Run_registered
        Run_registered_nonempty)
qed

lemmas sample_defs =
  sample_env_def sample_config_def sample_cmd_def DefaultConfig_def zero_Config_def
  telemetry_def Second_def Minute_def Let_def GOMAXPROCS_warning_def
  Run_started_def Run_joined_def Run_registered_def startupJoin_def emit_def

theorem shutdown_reverse_order_witness:
  "snd (Run_config sample_env sample_config) =
     [SetupLoggers, NewInmemSink 10000000000 60000000000,
      DefaultInmemSignal (InmemSink 10000000000 60000000000),
      NewGlobal \<lparr>ServiceName = ''consul'', EnableHostname = False\<rparr>
        (InmemSink 10000000000 60000000000),
      SetupAgent, StartSync, Ui_Output ''Consul agent running!'',
      Ui_Info (''     Node name: '' @ [CHR 0x27] @ ''host1'' @ [CHR 0x27]), Ui_Info '''',
      Ui_Output (''Log data will now stream in as it occurs:'' @ [CHR 0x0A]),
      LogGate_Flush, HandleSignals,
      Shutdown HttpServer (Some ''listener already closed''),
      Shutdown RpcServer None, Shutdown Agent None]
   \<and> snd (Run_config
        (sample_env\<lparr>setupAgent :=
           \<lambda>config. \<lparr>setup_err = None, rpcServer = True, httpServer = False\<rparr>\<rparr>)
        (sample_config\<lparr>StartJoin := [''10.0.0.2'']\<rparr>)) =
     [SetupLoggers, NewInmemSink 10000000000 60000000000,
      DefaultInmemSignal (InmemSink 10000000000 60000000000),
      NewGlobal \<lparr>ServiceName = ''consul'', EnableHostname = False\<rparr>
        (InmemSink 10000000000 60000000000),
      SetupAgent, Join [''10.0.0.2''], Ui_Error ''no address could be reached'',
      Shutdown RpcServer None, Shutdown Agent None]"
proof -
  let ?env = "sample_env\<lparr>setupAgent :=
           \<lambda>config. \<lparr>setup_err = None, rpcServer = True, httpServer = False\<rparr>\<rparr>"
  let ?config = "sample_config\<lparr>StartJoin := [''10.0.0.2'']\<rparr>"
  have a: "setupLoggers sample_env sample_config" "snd (telemetry sample_env sample_config)"
    "setup_err (setupAgent sample_env sample_config) = None"
    by (simp_all add: sample_defs)
  have b: "setupLoggers ?env ?config" "snd (telemetry ?env ?config)"
    "setup_err (setupAgent ?env ?config) = None"
    by (simp_all add: sample_defs)
  show ?thesis
    using shutdown_reverse_order [OF a] shutdown_reverse_order [OF b]
    by (simp add: sample_defs)
qed

lemma telemetry_no_statsite:
  "StatsiteAddr config = '''' \<Longrightarrow>
     telemetry env config =
       ([NewInmemSink (10 * Second) Minute,
         DefaultInmemSignal (InmemSink (10 * Second) Minute),
         NewGlobal ((metrics_DefaultConfig env ''consul'')\<lparr>EnableHostname := False\<rparr>)
           (InmemSink (10 * Second) Minute)], True)"
  by (simp add: telemetry_def Let_def)

lemma telemetry_statsite_fail:
  "StatsiteAddr config \<noteq> '''' \<Longrightarrow>
   metrics_NewStatsiteSink env (StatsiteAddr config) = Some err \<Longrightarrow>
     telemetry env config =
       ([NewInmemSink (10 * Second) Minute,
         DefaultInmemSignal (InmemSink (10 * Second) Minute),
         NewStatsiteSink (StatsiteAddr config),
         Ui_Error (''Failed to start statsite sink. Got: '' @ err)], False)"
  by (simp add: telemetry_def Let_def)

text \<open>
  Claim C5. With no statsite address configured, the telemetry lines build the in-memory
  sink alone: the sink made global is the in-memory sink, no statsite sink and no
  fan-out sink is built, and the metrics configuration made global has its hostname flag
  off. With an address whose sink cannot be built, \<^verbatim>\<open>Run\<close> reports the error and returns 1,
  and its journal ends there, before any call of \<^verbatim>\<open>setupAgent\<close>.
\<close>

theorem telemetry_wiring:
  "(StatsiteAddr config = '''' \<longrightarrow>
      telemetry env config =
        ([NewInmemSink (10 * Second) Minute,
          DefaultInmemSignal (InmemSink (10 * Second) Minute),
          NewGlobal ((metrics_DefaultConfig env ''consul'')\<lparr>EnableHostname := False\<rparr>)
            (InmemSink (10 * Second) Minute)], True))
   \<and> (StatsiteAddr config \<noteq> ''''
        \<and> metrics_NewStatsiteSink env (StatsiteAddr config) = Some err
        \<and> setupLoggers env config \<longrightarrow>
      Run_config env config =
        (1, GOMAXPROCS_warning env
            @ [SetupLoggers, NewInmemSink (10 * Second) Minute,
               DefaultInmemSignal (InmemSink (10 * Second) Minute),
               NewStatsiteSink (StatsiteAddr config),
               Ui_Error (''Failed to start statsite sink. Got: '' @ err)]))"
proof (intro conjI impI)
  assume "StatsiteAddr config = ''''"
  then show "telemetry env config =
        ([NewInmemSink (10 * Second) Minute,
          DefaultInmemSignal (InmemSink (10 * Second) Minute),
          NewGlobal ((metrics_DefaultConfig env ''consul'')\<lparr>EnableHostname := False\<rparr>)
            (InmemSink (10 * Second) Minute)], True)"
    by (rule telemetry_no_statsite)
next
  assume a: "StatsiteAddr config \<noteq> ''''
        \<and> metrics_NewStatsiteSink env (StatsiteAddr config) = Some err
        \<and> setupLoggers env config"
  then have t: "telemetry env config =
       ([NewInmemSink (10 * Second) Minute,
         DefaultInmemSignal (InmemSink (10 * Second) Minute),
         NewStatsiteSink (StatsiteAddr config),
         Ui_Error (''Failed to start statsite sink. Got: '' @ err)], False)"
    by (simp add: telemetry_statsite_fail)
  from a have "setupLoggers env config" by simp
  moreover from t have "\<not> snd (telemetry env config)" by simp
  ultimately have "Run_config env config =
       (1, GOMAXPROCS_warning env @ [SetupLoggers] @ fst (telemetry env config))"
    by (rule Run_config_telemetry_fail)
  with t show "Run_config env config =
        (1, GOMAXPROCS_warning env
            @ [SetupLoggers, NewInmemSink (10 * Second) Minute,
               DefaultInmemSignal (InmemSink (10 * Second) Minute),
               NewStatsiteSink (StatsiteAddr config),
               Ui_Error (''Failed to start statsite sink. Got: '' @ err)])"
    by simp
qed

theorem telemetry_wiring_witness:
  "telemetry sample_env sample_config =
     ([NewInmemSink 10000000000 60000000000,
       DefaultInmemSignal (InmemSink 10000000000 60000000000),
       NewGlobal \<lparr>ServiceName = ''consul'', EnableHostname = False\<rparr>
         (InmemSink 10000000000 60000000000)], True)
   \<and> Run_config (sample_env\<lparr>runtime_GOMAXPROCS := 1\<rparr>)
        (sample_config\<lparr>StatsiteAddr := ''down:8125''\<rparr>) =
     (1, [Ui_Error ''WARNING: It is highly recommended to set GOMAXPROCS higher than 1'',
          SetupLoggers, NewInmemSink 10000000000 60000000000,
          DefaultInmemSignal (InmemSink 10000000000 60000000000),
          NewStatsiteSink ''down:8125'',
          Ui_Error ''Failed to start statsite sink. Got: dial failed''])"
proof -
  let ?env = "sample_env\<lparr>runtime_GOMAXPROCS := 1\<rparr>"
  let ?config = "sample_config\<lparr>StatsiteAddr := ''down:8125''\<rparr>"
  have a: "StatsiteAddr sample_config = ''''"
    by (simp add: sample_defs)
  have b: "StatsiteAddr ?config \<noteq> ''''"
    "metrics_NewStatsiteSink ?env (StatsiteAddr ?config) = Some ''dial failed''"
    "setupLoggers ?env ?config"
    by (simp_all add: sample_defs)
  show ?thesis
    using telemetry_wiring [of sample_config sample_env "''x''"]
      telemetry_wiring [of ?config ?env "''dial failed''"] a b
    by (simp add: sample_defs)
qed

lemma fst_Run_config:
  "fst (Run_config env config) =
     (if setupLoggers env config \<and> snd (telemetry env config)
         \<and> setup_err (setupAgent env config) = None
      then fst (Run_started env config) else 1)"
proof (cases "setupLoggers env config")
  case False
  then show ?thesis by (simp add: Run_config_loggers_fail)
next
  case l: True
  show ?thesis
  proof (cases "snd (telemetry env config)")
    case False
    with l show ?thesis by (simp add: Run_config_telemetry_fail)
  next
    case t: True
    show ?thesis
    proof (cases "setup_err (setupAgent env config)")
      case None
      with l t show ?thesis by (simp add: Run_config_started)
    next
      case (Some err)
      with l t show ?thesis by (simp add: Run_config_setup_fail)
    qed
  qed
qed

lemma startupJoin_empty:
  "StartJoin config = [] \<Longrightarrow> startupJoin env config = ([], None)"
  by (simp add: startupJoin_def)

lemma startupJoin_some_reachable:
  "StartJoin config \<noteq> [] \<Longrightarrow> \<exists>a\<in>set (StartJoin config). join_reachable env a \<Longrightarrow>
     startupJoin env config = ([Join (StartJoin config)], None)"
  by (auto simp: startupJoin_def filter_empty_conv)

lemma startupJoin_none_reachable:
  "StartJoin config \<noteq> [] \<Longrightarrow> \<forall>a\<in>set (StartJoin config). \<not> join_reachable env a \<Longrightarrow>
     startupJoin env config = ([Join (StartJoin config)], Some (join_error env))"
  by (auto simp: startupJoin_def filter_empty_conv)

lemma register_services_first_failure:
  "\<forall>i<length pre. agent_AddService env (regd @ take i pre) (pre ! i) = None \<Longrightarrow>
   agent_AddService env (regd @ pre) s = Some err \<Longrightarrow>
     register_services env regd (pre @ s # post) =
       (map AddService pre
        @ [AddService s,
           Ui_Error (''Failed to register service '' @ [CHR 0x27] @ Service_Name s
                     @ [CHR 0x27] @ '': '' @ err)], False)"
proof (induction pre arbitrary: regd)
  case Nil
  then show ?case by simp
next
  case (Cons p pre)
  from Cons.prems(1) have p: "agent_AddService env regd p = None"
    by fastforce
  have "agent_AddService env ((regd @ [p]) @ take i pre) (pre ! i) = None"
    if "i < length pre" for i
    using Cons.prems(1) that by (fastforce dest: spec [of _ "Suc i"])
  moreover have "agent_AddService env ((regd @ [p]) @ pre) s = Some err"
    using Cons.prems(2) by simp
  ultimately have "register_services env (regd @ [p]) (pre @ s # post) =
       (map AddService pre
        @ [AddService s,
           Ui_Error (''Failed to register service '' @ [CHR 0x27] @ Service_Name s
                     @ [CHR 0x27] @ '': '' @ err)], False)"
    using Cons.IH [of "regd @ [p]"] by blast
  with p show ?case by simp
qed

text \<open>
  Claim C3. Let the services be \<open>pre\<close>, then \<open>s\<close>, then \<open>post\<close>, where the agent accepts
  each service of \<open>pre\<close> in turn and refuses \<open>s\<close> with the error \<open>err\<close>. Then the loop
  registers \<open>pre\<close> and tries \<open>s\<close>, \<^verbatim>\<open>Run\<close> reports an error that quotes the name of \<open>s\<close>
  and returns 1. The journal shows what is left out: no service of \<open>post\<close> is tried, no
  check is registered, and after the report come only the deferred shutdowns; nothing
  takes back the registrations of \<open>pre\<close>.
\<close>

theorem service_registration_fail_fast:
  assumes "Services config = pre @ s # post"
    and "\<forall>i<length pre. agent_AddService env (take i pre) (pre ! i) = None"
    and "agent_AddService env pre s = Some err"
  shows "register_services env [] (Services config) =
       (map AddService pre
        @ [AddService s,
           Ui_Error (''Failed to register service '' @ [CHR 0x27] @ Service_Name s
                     @ [CHR 0x27] @ '': '' @ err)], False)
    \<and> (snd (startupJoin env config) = None \<longrightarrow>
        Run_started env config =
          (1, fst (startupJoin env config) @ map AddService pre
              @ [AddService s,
                 Ui_Error (''Failed to register service '' @ [CHR 0x27] @ Service_Name s
                           @ [CHR 0x27] @ '': '' @ err)]))
    \<and> (setupLoggers env config \<and> snd (telemetry env config)
        \<and> setup_err (setupAgent env config) = None \<and> snd (startupJoin env config) = None \<longrightarrow>
        Run_config env config =
          (1, GOMAXPROCS_warning env @ [SetupLoggers] @ fst (telemetry env config)
              @ [SetupAgent] @ fst (startupJoin env config) @ map AddService pre
              @ [AddService s,
                 Ui_Error (''Failed to register service '' @ [CHR 0x27] @ Service_Name s
                           @ [CHR 0x27] @ '': '' @ err)]
              @ run_deferred env (deferred (setupAgent env config))))"
proof -
  let ?evs = "map AddService pre
        @ [AddService s,
           Ui_Error (''Failed to register service '' @ [CHR 0x27] @ Service_Name s
                     @ [CHR 0x27] @ '': '' @ err)]"
  have r: "register_services env [] (Services config) = (?evs, False)"
    using register_services_first_failure [of pre env "[]" s err post] assms by simp
  then have j: "Run_joined env config = (1, ?evs)"
    by (simp add: Run_joined_cases)
  have s: "Run_started env config = (1, fst (startupJoin env config) @ ?evs)"
    if "snd (startupJoin env config) = None"
    using that j by (simp add: Run_started_cases)
  have c: "Run_config env config =
          (1, GOMAXPROCS_warning env @ [SetupLoggers] @ fst (telemetry env config)
              @ [SetupAgent] @ fst (startupJoin env config) @ ?evs
              @ run_deferred env (deferred (setupAgent env config)))"
    if "setupLoggers env config \<and> snd (telemetry env config)
        \<and> setup_err (setupAgent env config) = None \<and> snd (startupJoin env config) = None"
    using that s by (simp add: Run_config_started)
  from r s c show ?thesis by simp
qed

theorem service_registration_fail_fast_witness:
  "Run_config sample_env (sample_config\<lparr>Services := [web, db, cache], Checks := [ping]\<rparr>) =
     (1, [SetupLoggers, NewInmemSink 10000000000 60000000000,
          DefaultInmemSignal (InmemSink 10000000000 60000000000),
          NewGlobal \<lparr>ServiceName = ''consul'', EnableHostname = False\<rparr>
            (InmemSink 10000000000 60000000000),
          SetupAgent, AddService web, AddService db,
          Ui_Error (''Failed to register service '' @ [CHR 0x27] @ ''db'' @ [CHR 0x27]
                    @ '': refused''),
          Shutdown HttpServer (Some ''listener already closed''),
          Shutdown RpcServer None, Shutdown Agent None])"
proof -
  let ?config = "sample_config\<lparr>Services := [web, db, cache], Checks := [ping]\<rparr>"
  have a: "Services ?config = [web] @ db # [cache]"
    by simp
  have b: "\<forall>i<length [web]. agent_AddService sample_env (take i [web]) ([web] ! i) = None"
    by (simp add: sample_env_def web_def)
  have c: "agent_AddService sample_env [web] db = Some ''refused''"
    by (simp add: sample_env_def db_def)
  have d: "setupLoggers sample_env ?config \<and> snd (telemetry sample_env ?config)
        \<and> setup_err (setupAgent sample_env ?config) = None
        \<and> snd (startupJoin sample_env ?config) = None"
    by (simp add: sample_defs)
  have n: "Service_Name db = ''db''"
    by (simp add: db_def)
  show ?thesis
    using service_registration_fail_fast [OF a b c] d n
    by (simp add: sample_defs deferred_def)
qed

lemma fst_Run_started:
  "fst (Run_started env config) =
     (if snd (startupJoin env config) = None
         \<and> snd (register_services env [] (Services config))
         \<and> snd (register_checks env config [] (Checks config))
      then handleSignals env config else 1)"
  by (simp add: Run_started_cases Run_joined_cases split: option.splits)

lemma HandleSignals_Run_started:
  "HandleSignals \<in> set (snd (Run_started env config)) \<longleftrightarrow>
     snd (startupJoin env config) = None
     \<and> snd (register_services env [] (Services config))
     \<and> snd (register_checks env config [] (Checks config))"
proof -
  have 1: "HandleSignals \<notin> set (fst (startupJoin env config))"
    using startupJoin_events [of HandleSignals env config] by auto
  have 2: "HandleSignals \<notin> set (fst (register_services env [] (Services config)))"
    using register_services_events [of HandleSignals env "[]" "Services config"] by auto
  have 3: "HandleSignals \<notin> set (fst (register_checks env config [] (Checks config)))"
    using register_checks_events [of HandleSignals env config "[]" "Checks config"] by auto
  have 4: "HandleSignals \<in> set (snd (Run_registered env config))"
    by (simp add: Run_registered_def)
  show ?thesis
    using 1 2 3 4 by (simp add: Run_started_cases Run_joined_cases split: option.splits)
qed

lemma HandleSignals_Run_config:
  "HandleSignals \<in> set (snd (Run_config env config)) \<longleftrightarrow>
     setupLoggers env config \<and> snd (telemetry env config)
     \<and> setup_err (setupAgent env config) = None
     \<and> HandleSignals \<in> set (snd (Run_started env config))"
proof -
  have 1: "HandleSignals \<notin> set (GOMAXPROCS_warning env)"
    using GOMAXPROCS_warning_events [of HandleSignals env] by auto
  have 2: "HandleSignals \<notin> set (fst (telemetry env config))"
    using telemetry_events [of HandleSignals env config] by auto
  have 3: "HandleSignals \<notin> set (run_deferred env (deferred (setupAgent env config)))"
    by (simp add: run_deferred_deferred)
  show ?thesis
  proof (cases "setupLoggers env config")
    case False
    with 1 show ?thesis by (simp add: Run_config_loggers_fail)
  next
    case l: True
    show ?thesis
    proof (cases "snd (telemetry env config)")
      case False
      with l 1 2 show ?thesis by (simp add: Run_config_telemetry_fail)
    next
      case t: True
      show ?thesis
      proof (cases "setup_err (setupAgent env config)")
        case None
        with l t 1 2 3 show ?thesis by (simp add: Run_config_started)
      next
        case (Some err)
        with l t 1 2 show ?thesis by (simp add: Run_config_setup_fail)
      qed
    qed
  qed
qed

lemma readConfig_events:
  "e \<in> set (fst (readConfig env c)) \<Longrightarrow> (\<exists>m. e = Ui_Error m) \<or> (\<exists>m. e = Ui_Output m)"
  by (auto simp: readConfig_def readConfig_finish_def Let_def split: sum.splits if_splits)

lemma Run_cases:
  "Run env c as =
     (case snd (readConfig env (c\<lparr>args := as\<rparr>)) of
        None \<Rightarrow> (1, fst (readConfig env (c\<lparr>args := as\<rparr>)))
      | Some config \<Rightarrow>
          (fst (Run_config env config),
           fst (readConfig env (c\<lparr>args := as\<rparr>)) @ snd (Run_config env config)))"
  by (cases "readConfig env (c\<lparr>args := as\<rparr>)") (simp add: Run_def emit_def split: option.splits)

text \<open>
  Claim C10. \<^verbatim>\<open>Run\<close> returns what \<^verbatim>\<open>handleSignals\<close> returns when every step before it has
  succeeded, which is also exactly when \<^verbatim>\<open>handleSignals\<close> is called, and the value 1 in
  every other case: when \<^verbatim>\<open>readConfig\<close> gives \<^verbatim>\<open>nil\<close> (flag parsing or hostname lookup), when
  the log writer is \<^verbatim>\<open>nil\<close>, when the statsite sink cannot be built, when \<^verbatim>\<open>setupAgent\<close> or
  \<^verbatim>\<open>startupJoin\<close> returns an error, and when the registration of a service or of a check
  fails.
\<close>

theorem Run_exit_value:
  "fst (Run_config env config) =
     (if setupLoggers env config \<and> snd (telemetry env config)
         \<and> setup_err (setupAgent env config) = None
         \<and> snd (startupJoin env config) = None
         \<and> snd (register_services env [] (Services config))
         \<and> snd (register_checks env config [] (Checks config))
      then handleSignals env config else 1)
   \<and> (HandleSignals \<in> set (snd (Run_config env config))) =
     (setupLoggers env config \<and> snd (telemetry env config)
         \<and> setup_err (setupAgent env config) = None
         \<and> snd (startupJoin env config) = None
         \<and> snd (register_services env [] (Services config))
         \<and> snd (register_checks env config [] (Checks config)))
   \<and> fst (Run env c as) =
     (case snd (readConfig env (c\<lparr>args := as\<rparr>)) of
        None \<Rightarrow> 1
      | Some config \<Rightarrow> fst (Run_config env config))
   \<and> (HandleSignals \<in> set (snd (Run env c as))) =
     (case snd (readConfig env (c\<lparr>args := as\<rparr>)) of
        None \<Rightarrow> False
      | Some config \<Rightarrow> HandleSignals \<in> set (snd (Run_config env config)))"
proof (intro conjI)
  show "fst (Run_config env config) =
     (if setupLoggers env config \<and> snd (telemetry env config)
         \<and> setup_err (setupAgent env config) = None
         \<and> snd (startupJoin env config) = None
         \<and> snd (register_services env [] (Services config))
         \<and> snd (register_checks env config [] (Checks config))
      then handleSignals env config else 1)"
    by (simp add: fst_Run_config fst_Run_started)
  show "(HandleSignals \<in> set (snd (Run_config env config))) =
     (setupLoggers env config \<and> snd (telemetry env config)
         \<and> setup_err (setupAgent env config) = None
         \<and> snd (startupJoin env config) = None
         \<and> snd (register_services env [] (Services config))
         \<and> snd (register_checks env config [] (Checks config)))"
    by (simp add: HandleSignals_Run_config HandleSignals_Run_started)
  show "fst (Run env c as) =
     (case snd (readConfig env (c\<lparr>args := as\<rparr>)) of
        None \<Rightarrow> 1
      | Some config \<Rightarrow> fst (Run_config env config))"
    by (simp add: Run_cases split: option.splits)
  have "HandleSignals \<notin> set (fst (readConfig env (c\<lparr>args := as\<rparr>)))"
    using readConfig_events [of HandleSignals env "c\<lparr>args := as\<rparr>"] by auto
  then show "(HandleSignals \<in> set (snd (Run env c as))) =
     (case snd (readConfig env (c\<lparr>args := as\<rparr>)) of
        None \<Rightarrow> False
      | Some config \<Rightarrow> HandleSignals \<in> set (snd (Run_config env config)))"
    by (simp add: Run_cases split: option.splits)
qed

theorem Run_exit_value_witness:
  "fst (Run (sample_env\<lparr>handleSignals := \<lambda>config. 130\<rparr>) sample_cmd []) = 130
   \<and> fst (Run sample_env sample_cmd [''-bogus'']) = 1
   \<and> fst (Run (sample_env\<lparr>os_Hostname := Inl ''no hostname''\<rparr>) sample_cmd []) = 1
   \<and> fst (Run (sample_env\<lparr>setupLoggers := \<lambda>config. False\<rparr>) sample_cmd []) = 1
   \<and> fst (Run_config sample_env (sample_config\<lparr>StatsiteAddr := ''down:8125''\<rparr>)) = 1
   \<and> fst (Run_config sample_env (sample_config\<lparr>StartJoin := [''10.0.0.2'']\<rparr>)) = 1
   \<and> fst (Run_config sample_env (sample_config\<lparr>Services := [web, db]\<rparr>)) = 1
   \<and> fst (Run_config sample_env (sample_config\<lparr>Checks := [ping, disk]\<rparr>)) = 1"
proof -
  have r: "snd (readConfig (sample_env\<lparr>handleSignals := \<lambda>config. 130\<rparr>) (sample_cmd\<lparr>args := []\<rparr>))
       = Some sample_config"
    "snd (readConfig sample_env (sample_cmd\<lparr>args := [''-bogus'']\<rparr>)) = None"
    "snd (readConfig (sample_env\<lparr>os_Hostname := Inl ''no hostname''\<rparr>) (sample_cmd\<lparr>args := []\<rparr>))
       = None"
    "snd (readConfig (sample_env\<lparr>setupLoggers := \<lambda>config. False\<rparr>) (sample_cmd\<lparr>args := []\<rparr>))
       = Some sample_config"
    by (simp_all add: readConfig_def readConfig_finish_def sample_defs)
  have s: "Service_Name web = ''web''" "Service_Name db = ''db''"
    "Check_Name ping = ''ping''" "Check_Name disk = ''disk''"
    by (simp_all add: web_def db_def ping_def disk_def)
  show ?thesis
    using Run_exit_value [of "sample_env\<lparr>handleSignals := \<lambda>config. 130\<rparr>" sample_config sample_cmd "[]"]
      Run_exit_value [of sample_env sample_config sample_cmd "[''-bogus'']"]
      Run_exit_value [of "sample_env\<lparr>os_Hostname := Inl ''no hostname''\<rparr>" sample_config sample_cmd "[]"]
      Run_exit_value [of "sample_env\<lparr>setupLoggers := \<lambda>config. False\<rparr>" sample_config sample_cmd "[]"]
      Run_exit_value [of sample_env "sample_config\<lparr>StatsiteAddr := ''down:8125''\<rparr>" sample_cmd "[]"]
      Run_exit_value [of sample_env "sample_config\<lparr>StartJoin := [''10.0.0.2'']\<rparr>" sample_cmd "[]"]
      Run_exit_value [of sample_env "sample_config\<lparr>Services := [web, db]\<rparr>" sample_cmd "[]"]
      Run_exit_value [of sample_env "sample_config\<lparr>Checks := [ping, disk]\<rparr>" sample_cmd "[]"]
      r s
    by (simp add: sample_defs)
qed






lemma Run_started_joined:
  assumes "snd (startupJoin env config) = None"
  shows "Run_started env config =
     (if \<not> snd (register_services env [] (Services config))
        then (1, fst (startupJoin env config)
                 @ fst (register_services env [] (Services config)))
      else if \<not> snd (register_checks env config [] (Checks config))
        then (1, fst (startupJoin env config)
                 @ map AddService (Services config)
                 @ fst (register_checks env config [] (Checks config)))
      else (handleSignals env config,
            fst (startupJoin env config)
            @ map AddService (Services config)
            @ map (AddCheck (NodeName config)) (Checks config)
            @ [StartSync,
               Ui_Output ''Consul agent running!'',
               Ui_Info (''     Node name: '' @ [CHR 0x27] @ NodeName config @ [CHR 0x27])]
            @ map Ui_Info (banner_rest env config)
            @ [Ui_Info '''',
               Ui_Output (''Log data will now stream in as it occurs:'' @ [CHR 0x0A]),
               LogGate_Flush,
               HandleSignals]))"
  using assms
  by (simp add: Run_started_cases Run_joined_cases register_services_ok register_checks_ok
      Run_registered_def)

lemma readConfig_resolved:
  assumes "flag_Parse env as = Inr flags" and "os_Hostname env = Inr hostname"
  shows "readConfig env (c\<lparr>args := as\<rparr>) =
     ([], Some (DefaultConfig\<lparr>NodeName := hostname, Revision := cmd_Revision c,
                  Version := cmd_Version c, VersionPrerelease := cmd_VersionPrerelease c\<rparr>))"
  using assms
  by (simp add: readConfig_def readConfig_finish_def DefaultConfig_def zero_Config_def)

text \<open>
  Claim C2. With an empty start-join list \<^verbatim>\<open>startupJoin\<close> attempts no join and returns no
  error; with a list of which at least one address is reachable it attempts the join and
  returns no error. In both cases \<^verbatim>\<open>Run\<close> proceeds: after the join events (none for the
  empty list) it registers the services and the checks, and when the registrations
  succeed it announces the sync, prints the banner, releases the log gate, waits in
  \<^verbatim>\<open>handleSignals\<close> and returns its value, the whole journal of \<^verbatim>\<open>Run\<close> being the one
  given. With a non-empty list of which no address is reachable, \<^verbatim>\<open>startupJoin\<close> returns an
  error, \<^verbatim>\<open>Run\<close> reports it and returns 1 after the deferred shutdowns, with no
  registration. Last, \<^verbatim>\<open>Run\<close> as called: the configuration \<^verbatim>\<open>readConfig\<close> resolves has an
  empty start-join list, so once the loggers and the agent are set up \<^verbatim>\<open>Run\<close> reaches
  \<^verbatim>\<open>handleSignals\<close> with no join in its journal.
\<close>

theorem startupJoin_asymmetry:
  "(StartJoin config = [] \<longrightarrow> startupJoin env config = ([], None))
   \<and> (StartJoin config \<noteq> [] \<and> (\<exists>a\<in>set (StartJoin config). join_reachable env a) \<longrightarrow>
        startupJoin env config = ([Join (StartJoin config)], None))
   \<and> (StartJoin config = [] \<or> (\<exists>a\<in>set (StartJoin config). join_reachable env a) \<longrightarrow>
        Run_started env config =
          (if \<not> snd (register_services env [] (Services config))
             then (1, (if StartJoin config = [] then [] else [Join (StartJoin config)])
                      @ fst (register_services env [] (Services config)))
           else if \<not> snd (register_checks env config [] (Checks config))
             then (1, (if StartJoin config = [] then [] else [Join (StartJoin config)])
                      @ map AddService (Services config)
                      @ fst (register_checks env config [] (Checks config)))
           else (handleSignals env config,
                 (if StartJoin config = [] then [] else [Join (StartJoin config)])
                 @ map AddService (Services config)
                 @ map (AddCheck (NodeName config)) (Checks config)
                 @ [StartSync,
                    Ui_Output ''Consul agent running!'',
                    Ui_Info (''     Node name: '' @ [CHR 0x27] @ NodeName config @ [CHR 0x27])]
                 @ map Ui_Info (banner_rest env config)
                 @ [Ui_Info '''',
                    Ui_Output (''Log data will now stream in as it occurs:'' @ [CHR 0x0A]),
                    LogGate_Flush,
                    HandleSignals]))
        \<and> (setupLoggers env config \<and> snd (telemetry env config)
            \<and> setup_err (setupAgent env config) = None
            \<and> snd (register_services env [] (Services config))
            \<and> snd (register_checks env config [] (Checks config)) \<longrightarrow>
            Run_config env config =
              (handleSignals env config,
               GOMAXPROCS_warning env @ [SetupLoggers] @ fst (telemetry env config)
               @ [SetupAgent]
               @ (if StartJoin config = [] then [] else [Join (StartJoin config)])
               @ map AddService (Services config)
               @ map (AddCheck (NodeName config)) (Checks config)
               @ [StartSync,
                  Ui_Output ''Consul agent running!'',
                  Ui_Info (''     Node name: '' @ [CHR 0x27] @ NodeName config @ [CHR 0x27])]
               @ map Ui_Info (banner_rest env config)
               @ [Ui_Info '''',
                  Ui_Output (''Log data will now stream in as it occurs:'' @ [CHR 0x0A]),
                  LogGate_Flush,
                  HandleSignals]
               @ run_deferred env (deferred (setupAgent env config)))))
   \<and> (StartJoin config \<noteq> [] \<and> (\<forall>a\<in>set (StartJoin config). \<not> join_reachable env a) \<longrightarrow>
        startupJoin env config = ([Join (StartJoin config)], Some (join_error env))
        \<and> Run_started env config = (1, [Join (StartJoin config), Ui_Error (join_error env)])
        \<and> fst (Run_config env config) = 1
        \<and> (setupLoggers env config \<and> snd (telemetry env config)
            \<and> setup_err (setupAgent env config) = None \<longrightarrow>
            Run_config env config =
              (1, GOMAXPROCS_warning env @ [SetupLoggers] @ fst (telemetry env config)
                  @ [SetupAgent, Join (StartJoin config), Ui_Error (join_error env)]
                  @ run_deferred env (deferred (setupAgent env config)))))
   \<and> (flag_Parse env as = Inr flags \<and> os_Hostname env = Inr hostname
        \<and> setupLoggers env
             (DefaultConfig\<lparr>NodeName := hostname, Revision := cmd_Revision c,
                Version := cmd_Version c, VersionPrerelease := cmd_VersionPrerelease c\<rparr>)
        \<and> setup_err (setupAgent env
             (DefaultConfig\<lparr>NodeName := hostname, Revision := cmd_Revision c,
                Version := cmd_Version c, VersionPrerelease := cmd_VersionPrerelease c\<rparr>)) = None \<longrightarrow>
        Run env c as =
          (handleSignals env
             (DefaultConfig\<lparr>NodeName := hostname, Revision := cmd_Revision c,
                Version := cmd_Version c, VersionPrerelease := cmd_VersionPrerelease c\<rparr>),
           GOMAXPROCS_warning env
           @ [SetupLoggers, NewInmemSink (10 * Second) Minute,
              DefaultInmemSignal (InmemSink (10 * Second) Minute),
              NewGlobal ((metrics_DefaultConfig env ''consul'')\<lparr>EnableHostname := False\<rparr>)
                (InmemSink (10 * Second) Minute),
              SetupAgent,
              StartSync,
              Ui_Output ''Consul agent running!'',
              Ui_Info (''     Node name: '' @ [CHR 0x27] @ hostname @ [CHR 0x27])]
           @ map Ui_Info (banner_rest env
               (DefaultConfig\<lparr>NodeName := hostname, Revision := cmd_Revision c,
                  Version := cmd_Version c, VersionPrerelease := cmd_VersionPrerelease c\<rparr>))
           @ [Ui_Info '''',
              Ui_Output (''Log data will now stream in as it occurs:'' @ [CHR 0x0A]),
              LogGate_Flush,
              HandleSignals]
           @ run_deferred env (deferred (setupAgent env
               (DefaultConfig\<lparr>NodeName := hostname, Revision := cmd_Revision c,
                  Version := cmd_Version c,
                  VersionPrerelease := cmd_VersionPrerelease c\<rparr>)))))"
proof (intro conjI impI)
  assume "StartJoin config = []"
  then show "startupJoin env config = ([], None)"
    by (rule startupJoin_empty)
next
  assume "StartJoin config \<noteq> [] \<and> (\<exists>a\<in>set (StartJoin config). join_reachable env a)"
  then show "startupJoin env config = ([Join (StartJoin config)], None)"
    by (simp add: startupJoin_some_reachable)
next
  assume a: "StartJoin config = [] \<or> (\<exists>a\<in>set (StartJoin config). join_reachable env a)"
  then have j: "startupJoin env config =
      ((if StartJoin config = [] then [] else [Join (StartJoin config)]), None)"
    by (cases "StartJoin config = []")
       (simp_all add: startupJoin_empty startupJoin_some_reachable)
  then have n: "snd (startupJoin env config) = None"
    and f: "fst (startupJoin env config) =
      (if StartJoin config = [] then [] else [Join (StartJoin config)])"
    by simp_all
  show s: "Run_started env config =
          (if \<not> snd (register_services env [] (Services config))
             then (1, (if StartJoin config = [] then [] else [Join (StartJoin config)])
                      @ fst (register_services env [] (Services config)))
           else if \<not> snd (register_checks env config [] (Checks config))
             then (1, (if StartJoin config = [] then [] else [Join (StartJoin config)])
                      @ map AddService (Services config)
                      @ fst (register_checks env config [] (Checks config)))
           else (handleSignals env config,
                 (if StartJoin config = [] then [] else [Join (StartJoin config)])
                 @ map AddService (Services config)
                 @ map (AddCheck (NodeName config)) (Checks config)
                 @ [StartSync,
                    Ui_Output ''Consul agent running!'',
                    Ui_Info (''     Node name: '' @ [CHR 0x27] @ NodeName config @ [CHR 0x27])]
                 @ map Ui_Info (banner_rest env config)
                 @ [Ui_Info '''',
                    Ui_Output (''Log data will now stream in as it occurs:'' @ [CHR 0x0A]),
                    LogGate_Flush,
                    HandleSignals]))"
    using Run_started_joined [OF n] by (simp only: f)
  assume "setupLoggers env config \<and> snd (telemetry env config)
            \<and> setup_err (setupAgent env config) = None
            \<and> snd (register_services env [] (Services config))
            \<and> snd (register_checks env config [] (Checks config))"
  then show "Run_config env config =
              (handleSignals env config,
               GOMAXPROCS_warning env @ [SetupLoggers] @ fst (telemetry env config)
               @ [SetupAgent]
               @ (if StartJoin config = [] then [] else [Join (StartJoin config)])
               @ map AddService (Services config)
               @ map (AddCheck (NodeName config)) (Checks config)
               @ [StartSync,
                  Ui_Output ''Consul agent running!'',
                  Ui_Info (''     Node name: '' @ [CHR 0x27] @ NodeName config @ [CHR 0x27])]
               @ map Ui_Info (banner_rest env config)
               @ [Ui_Info '''',
                  Ui_Output (''Log data will now stream in as it occurs:'' @ [CHR 0x0A]),
                  LogGate_Flush,
                  HandleSignals]
               @ run_deferred env (deferred (setupAgent env config)))"
    using s by (simp add: Run_config_started)
next
  assume a: "StartJoin config \<noteq> [] \<and> (\<forall>a\<in>set (StartJoin config). \<not> join_reachable env a)"
  then show j: "startupJoin env config = ([Join (StartJoin config)], Some (join_error env))"
    by (simp add: startupJoin_none_reachable)
  then show s: "Run_started env config = (1, [Join (StartJoin config), Ui_Error (join_error env)])"
    by (simp add: Run_started_def)
  then show "fst (Run_config env config) = 1"
    by (simp add: fst_Run_config)
  assume "setupLoggers env config \<and> snd (telemetry env config)
            \<and> setup_err (setupAgent env config) = None"
  then show "Run_config env config =
              (1, GOMAXPROCS_warning env @ [SetupLoggers] @ fst (telemetry env config)
                  @ [SetupAgent, Join (StartJoin config), Ui_Error (join_error env)]
                  @ run_deferred env (deferred (setupAgent env config)))"
    using s by (simp add: Run_config_started)
next
  let ?config = "DefaultConfig\<lparr>NodeName := hostname, Revision := cmd_Revision c,
                Version := cmd_Version c, VersionPrerelease := cmd_VersionPrerelease c\<rparr>"
  assume a: "flag_Parse env as = Inr flags \<and> os_Hostname env = Inr hostname
        \<and> setupLoggers env ?config \<and> setup_err (setupAgent env ?config) = None"
  then have r: "readConfig env (c\<lparr>args := as\<rparr>) = ([], Some ?config)"
    by (simp add: readConfig_resolved)
  have e: "StartJoin ?config = []" "Services ?config = []" "Checks ?config = []"
    "StatsiteAddr ?config = ''''" "NodeName ?config = hostname"
    by (simp_all add: DefaultConfig_def zero_Config_def)
  have t: "telemetry env ?config =
       ([NewInmemSink (10 * Second) Minute,
         DefaultInmemSignal (InmemSink (10 * Second) Minute),
         NewGlobal ((metrics_DefaultConfig env ''consul'')\<lparr>EnableHostname := False\<rparr>)
           (InmemSink (10 * Second) Minute)], True)"
    using e(4) by (rule telemetry_no_statsite)
  have n: "snd (startupJoin env ?config) = None" "fst (startupJoin env ?config) = []"
    using e(1) by (simp_all add: startupJoin_empty)
  have s: "Run_started env ?config =
       (handleSignals env ?config,
        [StartSync,
         Ui_Output ''Consul agent running!'',
         Ui_Info (''     Node name: '' @ [CHR 0x27] @ hostname @ [CHR 0x27])]
        @ map Ui_Info (banner_rest env ?config)
        @ [Ui_Info '''',
           Ui_Output (''Log data will now stream in as it occurs:'' @ [CHR 0x0A]),
           LogGate_Flush,
           HandleSignals])"
    using Run_started_joined [OF n(1)] by (simp only: n(2) e) simp
  have "Run_config env ?config =
       (fst (Run_started env ?config),
        GOMAXPROCS_warning env @ [SetupLoggers] @ fst (telemetry env ?config) @ [SetupAgent]
        @ snd (Run_started env ?config) @ run_deferred env (deferred (setupAgent env ?config)))"
    using a t by (simp add: Run_config_started)
  with r s t show "Run env c as =
          (handleSignals env ?config,
           GOMAXPROCS_warning env
           @ [SetupLoggers, NewInmemSink (10 * Second) Minute,
              DefaultInmemSignal (InmemSink (10 * Second) Minute),
              NewGlobal ((metrics_DefaultConfig env ''consul'')\<lparr>EnableHostname := False\<rparr>)
                (InmemSink (10 * Second) Minute),
              SetupAgent,
              StartSync,
              Ui_Output ''Consul agent running!'',
              Ui_Info (''     Node name: '' @ [CHR 0x27] @ hostname @ [CHR 0x27])]
           @ map Ui_Info (banner_rest env ?config)
           @ [Ui_Info '''',
              Ui_Output (''Log data will now stream in as it occurs:'' @ [CHR 0x0A]),
              LogGate_Flush,
              HandleSignals]
           @ run_deferred env (deferred (setupAgent env ?config)))"
    by (simp add: Run_def emit_def)
qed

theorem startupJoin_asymmetry_witness:
  "Run_config sample_env
     (sample_config\<lparr>StartJoin := [''10.0.0.1'', ''10.0.0.2''], Services := [web],
        Checks := [ping]\<rparr>) =
     (0, [SetupLoggers, NewInmemSink 10000000000 60000000000,
          DefaultInmemSignal (InmemSink 10000000000 60000000000),
          NewGlobal \<lparr>ServiceName = ''consul'', EnableHostname = False\<rparr>
            (InmemSink 10000000000 60000000000),
          SetupAgent, Join [''10.0.0.1'', ''10.0.0.2''], AddService web,
          AddCheck ''host1'' ping, StartSync, Ui_Output ''Consul agent running!'',
          Ui_Info (''     Node name: '' @ [CHR 0x27] @ ''host1'' @ [CHR 0x27]), Ui_Info '''',
          Ui_Output (''Log data will now stream in as it occurs:'' @ [CHR 0x0A]),
          LogGate_Flush, HandleSignals,
          Shutdown HttpServer (Some ''listener already closed''),
          Shutdown RpcServer None, Shutdown Agent None])
   \<and> Run_config sample_env
       (sample_config\<lparr>StartJoin := [''10.0.0.3'', ''10.0.0.2''], Services := [web],
          Checks := [ping]\<rparr>) =
     (1, [SetupLoggers, NewInmemSink 10000000000 60000000000,
          DefaultInmemSignal (InmemSink 10000000000 60000000000),
          NewGlobal \<lparr>ServiceName = ''consul'', EnableHostname = False\<rparr>
            (InmemSink 10000000000 60000000000),
          SetupAgent, Join [''10.0.0.3'', ''10.0.0.2''],
          Ui_Error ''no address could be reached'',
          Shutdown HttpServer (Some ''listener already closed''),
          Shutdown RpcServer None, Shutdown Agent None])
   \<and> Run sample_env sample_cmd [] =
     (0, [SetupLoggers, NewInmemSink 10000000000 60000000000,
          DefaultInmemSignal (InmemSink 10000000000 60000000000),
          NewGlobal \<lparr>ServiceName = ''consul'', EnableHostname = False\<rparr>
            (InmemSink 10000000000 60000000000),
          SetupAgent, StartSync, Ui_Output ''Consul agent running!'',
          Ui_Info (''     Node name: '' @ [CHR 0x27] @ ''host1'' @ [CHR 0x27]), Ui_Info '''',
          Ui_Output (''Log data will now stream in as it occurs:'' @ [CHR 0x0A]),
          LogGate_Flush, HandleSignals,
          Shutdown HttpServer (Some ''listener already closed''),
          Shutdown RpcServer None, Shutdown Agent None])"
proof -
  let ?one = "sample_config\<lparr>StartJoin := [''10.0.0.1'', ''10.0.0.2''], Services := [web],
        Checks := [ping]\<rparr>"
  let ?none = "sample_config\<lparr>StartJoin := [''10.0.0.3'', ''10.0.0.2''], Services := [web],
          Checks := [ping]\<rparr>"
  let ?flags = "\<lparr>flag_log_level = '''', flag_node = '''', flag_bind = ''''\<rparr>"
  let ?resolved = "DefaultConfig\<lparr>NodeName := ''host1'', Revision := cmd_Revision sample_cmd,
      Version := cmd_Version sample_cmd,
      VersionPrerelease := cmd_VersionPrerelease sample_cmd\<rparr>"
  have n: "Service_Name web = ''web''" "Check_Name ping = ''ping''"
    by (simp_all add: web_def ping_def)
  have a: "StartJoin ?one = [] \<or> (\<exists>a\<in>set (StartJoin ?one). join_reachable sample_env a)"
    by (simp add: sample_env_def)
  have a': "setupLoggers sample_env ?one \<and> snd (telemetry sample_env ?one)
            \<and> setup_err (setupAgent sample_env ?one) = None
            \<and> snd (register_services sample_env [] (Services ?one))
            \<and> snd (register_checks sample_env ?one [] (Checks ?one))"
    using n by (simp add: sample_defs)
  have b: "StartJoin ?none \<noteq> [] \<and> (\<forall>a\<in>set (StartJoin ?none). \<not> join_reachable sample_env a)"
    by (simp add: sample_env_def)
  have b': "setupLoggers sample_env ?none \<and> snd (telemetry sample_env ?none)
            \<and> setup_err (setupAgent sample_env ?none) = None"
    by (simp add: sample_defs)
  have c: "flag_Parse sample_env [] = Inr ?flags \<and> os_Hostname sample_env = Inr ''host1''
        \<and> setupLoggers sample_env ?resolved
        \<and> setup_err (setupAgent sample_env ?resolved) = None"
    by (simp add: sample_env_def)
  show ?thesis
    using startupJoin_asymmetry [of ?one sample_env "[]" ?flags "''host1''" sample_cmd]
      startupJoin_asymmetry [of ?none sample_env "[]" ?flags "''host1''" sample_cmd]
      a a' b b' c
    by (simp add: sample_defs deferred_def)
qed

end
